theory Spec2Isabelle
  imports Main
begin

section \<open>Python values and the objects of the remote client library\<close>

text \<open>
  The script \<^verbatim>\<open>scripts/space_operations.py\<close> reads attributes of objects returned by the
  client library and copies them into dictionaries that are later written as JSON.
  The leaf values of those attributes are the JSON-representable scalars the library's
  typed fields hold (\<^verbatim>\<open>None\<close>, booleans, integers, strings; enum members of string type
  are strings).
\<close>

datatype pyval = PNone | PBool bool | PInt int | PStr string

type_synonym pyattrs = "(string \<times> pyval) list"

type_synonym pydict = "(string \<times> pyval) list"

text \<open>
  A runtime object (\<^verbatim>\<open>SpaceRuntime\<close>): its class name, its attributes and the text that
  \<^verbatim>\<open>str(runtime)\<close> gives.
\<close>

record runtime_obj =
  rt_cls :: string
  rt_attrs :: pyattrs
  rt_str :: string

text \<open>
  The attribute \<^verbatim>\<open>runtime\<close> of a space object: missing, present with the value
  \<^verbatim>\<open>None\<close>, or present with a runtime object.
\<close>

datatype runtime_attr = RuntimeAbsent | RuntimeNone | RuntimeObj runtime_obj

record space_obj =
  sp_cls :: string
  sp_attrs :: pyattrs
  sp_runtime :: runtime_attr

text \<open>
  Exceptions. All three are subclasses of Python's \<^verbatim>\<open>Exception\<close>, so the clause
  \<^verbatim>\<open>except Exception\<close> catches each of them; \<^verbatim>\<open>except HfHubHTTPError\<close> catches the
  first only. \<^verbatim>\<open>AttributeError c n\<close> is raised by reading the missing attribute
  \<^verbatim>\<open>n\<close> of an object of class \<^verbatim>\<open>c\<close>. Interrupts that are not errors
  (\<^verbatim>\<open>KeyboardInterrupt\<close>, \<^verbatim>\<open>SystemExit\<close>) do not come from the remote side and are
  not part of this type.
\<close>

datatype exn = HfHubHTTPError string | AttributeError string string | OtherException string

definition exn_str :: "exn \<Rightarrow> string" where
  "exn_str e = (case e of
       HfHubHTTPError m \<Rightarrow> m
     | AttributeError c n \<Rightarrow>
         [CHR 0x27] @ c @ [CHR 0x27] @ '' object has no attribute '' @ [CHR 0x27] @ n @ [CHR 0x27]
     | OtherException m \<Rightarrow> m)"

definition exn_bind :: "exn + 'a \<Rightarrow> ('a \<Rightarrow> exn + 'b) \<Rightarrow> exn + 'b" where
  "exn_bind m f = (case m of Inl e \<Rightarrow> Inl e | Inr v \<Rightarrow> f v)"

subsection \<open>Built-ins: hasattr, attribute access, str, truthiness\<close>

definition hasattr :: "pyattrs \<Rightarrow> string \<Rightarrow> bool" where
  "hasattr as n = (map_of as n \<noteq> None)"

definition getattr :: "string \<Rightarrow> pyattrs \<Rightarrow> string \<Rightarrow> exn + pyval" where
  "getattr c as n = (case map_of as n of None \<Rightarrow> Inl (AttributeError c n) | Some v \<Rightarrow> Inr v)"

text \<open>\<^verbatim>\<open>x.n if hasattr(x, 'n') else d\<close>\<close>

definition attr_or :: "pyattrs \<Rightarrow> string \<Rightarrow> pyval \<Rightarrow> pyval" where
  "attr_or as n d = (if hasattr as n then (case map_of as n of Some v \<Rightarrow> v | None \<Rightarrow> d) else d)"

fun str_nat :: "nat \<Rightarrow> string" where
  "str_nat n = (if n < 10 then [char_of (48 + n)]
                else str_nat (n div 10) @ [char_of (48 + n mod 10)])"

definition str_int :: "int \<Rightarrow> string" where
  "str_int i = (if i < 0 then ''-'' @ str_nat (nat (- i)) else str_nat (nat i))"

definition py_str :: "pyval \<Rightarrow> string" where
  "py_str v = (case v of
       PNone \<Rightarrow> ''None''
     | PBool b \<Rightarrow> (if b then ''True'' else ''False'')
     | PInt i \<Rightarrow> str_int i
     | PStr s \<Rightarrow> s)"

text \<open>Truthiness of an optional string: \<^verbatim>\<open>None\<close> and the empty string are false.\<close>

definition truthy :: "string option \<Rightarrow> bool" where
  "truthy t = (case t of None \<Rightarrow> False | Some s \<Rightarrow> s \<noteq> [])"

text \<open>\<^verbatim>\<open>a or b\<close> on optional strings.\<close>

definition py_or :: "string option \<Rightarrow> string option \<Rightarrow> string option" where
  "py_or a b = (if truthy a then a else b)"

section \<open>The remote API, and the world the script acts on\<close>

text \<open>
  One request to the remote API, as the script issues it through an \<^verbatim>\<open>HfApi\<close> handle
  built with \<^verbatim>\<open>HfApi(token=token)\<close>: the handle's token comes first. Building the
  handle sends nothing; the log \<open>calls\<close> of the world below grows by one entry at each
  place where the script invokes a method of the handle.
\<close>

datatype api_call =
    ListSpacesCall "string option" "string option" "string option" int bool
  | SpaceInfoCall "string option" string
  | RestartSpaceCall "string option" string
  | PauseSpaceCall "string option" string
  | GetSpaceRuntimeCall "string option" string

text \<open>
  The behaviour of the remote side. A call raises (\<open>Inl\<close>) or returns (\<open>Inr\<close>).
  \<^verbatim>\<open>list_spaces\<close> returns an iterable: the items it yields, and the exception that ends
  the iteration when it fails part-way (\<open>None\<close> when the iteration ends normally).
\<close>

record remote =
  api_list_spaces :: "string option \<Rightarrow> string option \<Rightarrow> string option \<Rightarrow> int \<Rightarrow> bool
                        \<Rightarrow> exn + (space_obj list \<times> exn option)"
  api_space_info :: "string option \<Rightarrow> string \<Rightarrow> exn + space_obj"
  api_restart_space :: "string option \<Rightarrow> string \<Rightarrow> exn + unit"
  api_pause_space :: "string option \<Rightarrow> string \<Rightarrow> exn + unit"
  api_get_space_runtime :: "string option \<Rightarrow> string \<Rightarrow> exn + runtime_obj"

text \<open>
  What is written to standard output: a line of text, a JSON document
  (\<^verbatim>\<open>print(json.dumps(x, indent=2, ensure_ascii=False))\<close>, kept as the value \<^verbatim>\<open>x\<close>),
  or the help text of the argument parser.
\<close>

datatype json = JDict pydict | JList "pydict list"

datatype out_item = Line string | JsonDoc json | HelpText

record world =
  stdout :: "out_item list"
  stderr :: "string list"
  calls :: "api_call list"

definition print_out :: "out_item \<Rightarrow> world \<Rightarrow> world" where
  "print_out x w = w\<lparr>stdout := stdout w @ [x]\<rparr>"

definition print_err :: "string \<Rightarrow> world \<Rightarrow> world" where
  "print_err s w = w\<lparr>stderr := stderr w @ [s]\<rparr>"

definition call_api :: "api_call \<Rightarrow> world \<Rightarrow> world" where
  "call_api c w = w\<lparr>calls := calls w @ [c]\<rparr>"

section \<open>Client operations\<close>

subsection \<open>get_token\<close>

definition get_token :: "(string \<Rightarrow> string option) \<Rightarrow> world \<Rightarrow> string option \<times> world" where
  "get_token environ w =
     (let token = py_or (environ ''HF_TOKEN'') (environ ''HUGGINGFACE_TOKEN'')
      in if \<not> truthy token
         then (token,
               print_err ''Some operations may require authentication.''
                 (print_err ''Warning: No HF_TOKEN or HUGGINGFACE_TOKEN found in environment.'' w))
         else (token, w))"

subsection \<open>list_spaces\<close>

text \<open>The dictionary built for one space in the loop of \<^verbatim>\<open>list_spaces\<close>.\<close>

definition space_dict :: "space_obj \<Rightarrow> exn + pydict" where
  "space_dict space =
     exn_bind (getattr (sp_cls space) (sp_attrs space) ''id'') (\<lambda>v_id.
     exn_bind (getattr (sp_cls space) (sp_attrs space) ''author'') (\<lambda>v_author.
     exn_bind (getattr (sp_cls space) (sp_attrs space) ''sha'') (\<lambda>v_sha.
     Inr [(''id'', v_id),
          (''author'', v_author),
          (''sha'', v_sha),
          (''last_modified'',
             if hasattr (sp_attrs space) ''lastModified''
             then PStr (py_str (attr_or (sp_attrs space) ''lastModified'' PNone)) else PNone),
          (''private'', attr_or (sp_attrs space) ''private'' (PBool False)),
          (''likes'', attr_or (sp_attrs space) ''likes'' (PInt 0)),
          (''sdk'', attr_or (sp_attrs space) ''sdk'' PNone)])))"

text \<open>
  The loop \<^verbatim>\<open>for space in spaces: ... results.append(space_dict)\<close> over the iterable:
  an exception of the dictionary construction or of the iterable leaves the loop.
\<close>

fun collect_spaces :: "space_obj list \<Rightarrow> exn option \<Rightarrow> pydict list \<Rightarrow> exn + pydict list" where
  "collect_spaces [] None results = Inr results"
| "collect_spaces [] (Some e) results = Inl e"
| "collect_spaces (space # rest) fin results =
     (case space_dict space of
        Inl e \<Rightarrow> Inl e
      | Inr d \<Rightarrow> collect_spaces rest fin (results @ [d]))"

text \<open>The body of the \<^verbatim>\<open>try\<close> block of \<^verbatim>\<open>list_spaces\<close>.\<close>

definition list_spaces_try ::
  "remote \<Rightarrow> string option \<Rightarrow> string option \<Rightarrow> int \<Rightarrow> string option \<Rightarrow> exn + pydict list" where
  "list_spaces_try api author search limit token =
     exn_bind (api_list_spaces api token author search limit True) (\<lambda>(spaces, fin).
       collect_spaces spaces fin [])"

definition list_spaces ::
  "remote \<Rightarrow> string option \<Rightarrow> string option \<Rightarrow> int \<Rightarrow> string option \<Rightarrow> world
     \<Rightarrow> pydict list \<times> world" where
  "list_spaces api author search limit token w =
     (let w1 = call_api (ListSpacesCall token author search limit True) w
      in case list_spaces_try api author search limit token of
           Inr results \<Rightarrow> (results, w1)
         | Inl e \<Rightarrow> ([], print_err (''Error listing spaces: '' @ exn_str e) w1))"

subsection \<open>get_space_info\<close>

text \<open>
  \<^verbatim>\<open>space.runtime.n if hasattr(space, 'runtime') and hasattr(space.runtime, 'n') else None\<close>;
  the value \<^verbatim>\<open>None\<close> has no attribute \<^verbatim>\<open>stage\<close> or \<^verbatim>\<open>hardware\<close>.
\<close>

definition runtime_field :: "space_obj \<Rightarrow> string \<Rightarrow> pyval" where
  "runtime_field space n =
     (case sp_runtime space of
        RuntimeAbsent \<Rightarrow> PNone
      | RuntimeNone \<Rightarrow> PNone
      | RuntimeObj r \<Rightarrow> attr_or (rt_attrs r) n PNone)"

definition space_info_dict :: "space_obj \<Rightarrow> exn + pydict" where
  "space_info_dict space =
     exn_bind (getattr (sp_cls space) (sp_attrs space) ''id'') (\<lambda>v_id.
     exn_bind (getattr (sp_cls space) (sp_attrs space) ''author'') (\<lambda>v_author.
     exn_bind (getattr (sp_cls space) (sp_attrs space) ''sha'') (\<lambda>v_sha.
     Inr [(''id'', v_id),
          (''author'', v_author),
          (''sha'', v_sha),
          (''last_modified'',
             if hasattr (sp_attrs space) ''lastModified''
             then PStr (py_str (attr_or (sp_attrs space) ''lastModified'' PNone)) else PNone),
          (''private'', attr_or (sp_attrs space) ''private'' (PBool False)),
          (''likes'', attr_or (sp_attrs space) ''likes'' (PInt 0)),
          (''sdk'', attr_or (sp_attrs space) ''sdk'' PNone),
          (''sdk_version'', attr_or (sp_attrs space) ''sdk_version'' PNone),
          (''runtime'', runtime_field space ''stage''),
          (''hardware'', runtime_field space ''hardware'')])))"

definition get_space_info_try :: "remote \<Rightarrow> string \<Rightarrow> string option \<Rightarrow> exn + pydict" where
  "get_space_info_try api space_id token =
     exn_bind (api_space_info api token space_id) space_info_dict"

definition get_space_info ::
  "remote \<Rightarrow> string \<Rightarrow> string option \<Rightarrow> world \<Rightarrow> pydict option \<times> world" where
  "get_space_info api space_id token w =
     (let w1 = call_api (SpaceInfoCall token space_id) w
      in case get_space_info_try api space_id token of
           Inr info \<Rightarrow> (Some info, w1)
         | Inl (HfHubHTTPError m) \<Rightarrow>
             (None, print_err (''Error getting space info: '' @ exn_str (HfHubHTTPError m)) w1)
         | Inl e \<Rightarrow> (None, print_err (''Unexpected error: '' @ exn_str e) w1))"

subsection \<open>restart_space and pause_space\<close>

definition restart_space ::
  "remote \<Rightarrow> string \<Rightarrow> string option \<Rightarrow> world \<Rightarrow> bool \<times> world" where
  "restart_space api space_id token w =
     (if \<not> truthy token
      then (False, print_err ''Error: Token is required to restart a space.'' w)
      else let w1 = call_api (RestartSpaceCall token space_id) w
           in case api_restart_space api token space_id of
                Inr u \<Rightarrow> (True, print_out (Line (''Successfully restarted space: '' @ space_id)) w1)
              | Inl (HfHubHTTPError m) \<Rightarrow>
                  (False, print_err (''Error restarting space: '' @ exn_str (HfHubHTTPError m)) w1)
              | Inl e \<Rightarrow> (False, print_err (''Unexpected error: '' @ exn_str e) w1))"

definition pause_space ::
  "remote \<Rightarrow> string \<Rightarrow> string option \<Rightarrow> world \<Rightarrow> bool \<times> world" where
  "pause_space api space_id token w =
     (if \<not> truthy token
      then (False, print_err ''Error: Token is required to pause a space.'' w)
      else let w1 = call_api (PauseSpaceCall token space_id) w
           in case api_pause_space api token space_id of
                Inr u \<Rightarrow> (True, print_out (Line (''Successfully paused space: '' @ space_id)) w1)
              | Inl (HfHubHTTPError m) \<Rightarrow>
                  (False, print_err (''Error pausing space: '' @ exn_str (HfHubHTTPError m)) w1)
              | Inl e \<Rightarrow> (False, print_err (''Unexpected error: '' @ exn_str e) w1))"

subsection \<open>get_space_runtime\<close>

definition runtime_info_dict :: "runtime_obj \<Rightarrow> exn + pydict" where
  "runtime_info_dict runtime =
     exn_bind (getattr (rt_cls runtime) (rt_attrs runtime) ''stage'') (\<lambda>v_stage.
     Inr [(''stage'', v_stage),
          (''hardware'', attr_or (rt_attrs runtime) ''hardware'' PNone),
          (''requested_hardware'', attr_or (rt_attrs runtime) ''requested_hardware'' PNone),
          (''sleep_time'', attr_or (rt_attrs runtime) ''sleep_time'' PNone),
          (''raw_data'', PStr (rt_str runtime))])"

definition get_space_runtime_try :: "remote \<Rightarrow> string \<Rightarrow> string option \<Rightarrow> exn + pydict" where
  "get_space_runtime_try api space_id token =
     exn_bind (api_get_space_runtime api token space_id) runtime_info_dict"

definition get_space_runtime ::
  "remote \<Rightarrow> string \<Rightarrow> string option \<Rightarrow> world \<Rightarrow> pydict option \<times> world" where
  "get_space_runtime api space_id token w =
     (let w1 = call_api (GetSpaceRuntimeCall token space_id) w
      in case get_space_runtime_try api space_id token of
           Inr runtime_info \<Rightarrow> (Some runtime_info, w1)
         | Inl (HfHubHTTPError m) \<Rightarrow>
             (None, print_err (''Error getting space runtime: '' @ exn_str (HfHubHTTPError m)) w1)
         | Inl e \<Rightarrow> (None, print_err (''Unexpected error: '' @ exn_str e) w1))"

subsection \<open>list_user_spaces\<close>

text \<open>
  \<^verbatim>\<open>return list_spaces(author=username, limit=100, token=token)\<close>; the parameter
  \<^verbatim>\<open>search\<close> keeps its default \<^verbatim>\<open>None\<close>.
\<close>

definition list_user_spaces ::
  "remote \<Rightarrow> string \<Rightarrow> string option \<Rightarrow> world \<Rightarrow> pydict list \<times> world" where
  "list_user_spaces api username token w = list_spaces api (Some username) None 100 token w"

section \<open>Command-line front end\<close>

text \<open>
  The namespace that \<^verbatim>\<open>parser.parse_args()\<close> returns. \<^verbatim>\<open>command\<close> is \<open>None\<close> when no
  subcommand is given; \<^verbatim>\<open>limit\<close> defaults to 20 in the parser.
\<close>

record args =
  arg_command :: "string option"
  arg_token :: "string option"
  arg_author :: "string option"
  arg_search :: "string option"
  arg_limit :: int
  arg_space_id :: string
  arg_username :: string

text \<open>\<^verbatim>\<open>token = args.token or get_token()\<close>: \<^verbatim>\<open>get_token\<close> runs only when the flag is falsy.\<close>

definition resolve_token ::
  "(string \<Rightarrow> string option) \<Rightarrow> args \<Rightarrow> world \<Rightarrow> string option \<times> world" where
  "resolve_token environ a w =
     (if truthy (arg_token a) then (arg_token a, w) else get_token environ w)"

text \<open>
  \<^verbatim>\<open>main\<close> after parsing, returning the exit code of the process: \<^verbatim>\<open>sys.exit(n)\<close> gives
  \<open>n\<close>, and reaching the end of \<^verbatim>\<open>main\<close> gives 0. A dictionary is truthy when it is not
  empty.
\<close>

definition main :: "remote \<Rightarrow> (string \<Rightarrow> string option) \<Rightarrow> args \<Rightarrow> world \<Rightarrow> int \<times> world" where
  "main api environ a w =
     (if \<not> truthy (arg_command a) then (1, print_out HelpText w)
      else
        let (token, w1) = resolve_token environ a w
        in if arg_command a = Some ''list'' then
             (let (results, w2) =
                    list_spaces api (arg_author a) (arg_search a) (arg_limit a) token w1
              in (0, print_out (JsonDoc (JList results)) w2))
           else if arg_command a = Some ''info'' then
             (let (info, w2) = get_space_info api (arg_space_id a) token w1
              in case info of
                   None \<Rightarrow> (1, w2)
                 | Some d \<Rightarrow> if d \<noteq> [] then (0, print_out (JsonDoc (JDict d)) w2) else (1, w2))
           else if arg_command a = Some ''restart'' then
             (let (success, w2) = restart_space api (arg_space_id a) token w1
              in (if success then 0 else 1, w2))
           else if arg_command a = Some ''pause'' then
             (let (success, w2) = pause_space api (arg_space_id a) token w1
              in (if success then 0 else 1, w2))
           else if arg_command a = Some ''runtime'' then
             (let (runtime, w2) = get_space_runtime api (arg_space_id a) token w1
              in case runtime of
                   None \<Rightarrow> (1, w2)
                 | Some d \<Rightarrow> if d \<noteq> [] then (0, print_out (JsonDoc (JDict d)) w2) else (1, w2))
           else if arg_command a = Some ''user'' then
             (let (results, w2) = list_user_spaces api (arg_username a) token w1
              in (0, print_out (JsonDoc (JList results)) w2))
           else (0, w1))"

section \<open>Predicates used in the statements\<close>

text \<open>A space object lacks one of the attributes that the script reads without a guard.\<close>

definition lacks_required :: "space_obj \<Rightarrow> bool" where
  "lacks_required space =
     (\<not> hasattr (sp_attrs space) ''id'' \<or> \<not> hasattr (sp_attrs space) ''author''
      \<or> \<not> hasattr (sp_attrs space) ''sha'')"

text \<open>
  The remote listing fails: the call raises, or the iterable it returns raises while the
  script iterates over it.
\<close>

definition list_call_fails ::
  "remote \<Rightarrow> string option \<Rightarrow> string option \<Rightarrow> int \<Rightarrow> string option \<Rightarrow> bool" where
  "list_call_fails api author search limit token =
     (case api_list_spaces api token author search limit True of
        Inl e \<Rightarrow> True
      | Inr (spaces, fin) \<Rightarrow> fin \<noteq> None)"

section \<open>Example inputs\<close>

definition world0 :: world where
  "world0 = \<lparr>stdout = [], stderr = [], calls = []\<rparr>"

text \<open>A space object that has the three unguarded attributes only.\<close>

definition bare_space :: space_obj where
  "bare_space = \<lparr>sp_cls = ''SpaceInfo'',
                  sp_attrs = [(''id'', PStr ''alice/demo''), (''author'', PStr ''alice''),
                              (''sha'', PStr ''0f3c'')],
                  sp_runtime = RuntimeAbsent\<rparr>"

text \<open>A space object without the attribute \<^verbatim>\<open>sha\<close>.\<close>

definition shaless_space :: space_obj where
  "shaless_space = \<lparr>sp_cls = ''SpaceInfo'',
                     sp_attrs = [(''id'', PStr ''bob/app''), (''author'', PStr ''bob''),
                                 (''likes'', PInt 3)],
                     sp_runtime = RuntimeNone\<rparr>"

definition bare_runtime :: runtime_obj where
  "bare_runtime = \<lparr>rt_cls = ''SpaceRuntime'', rt_attrs = [(''stage'', PStr ''RUNNING'')],
                    rt_str = ''SpaceRuntime(stage=RUNNING)''\<rparr>"

text \<open>A runtime object without the attribute \<^verbatim>\<open>stage\<close>.\<close>

definition stageless_runtime :: runtime_obj where
  "stageless_runtime = \<lparr>rt_cls = ''SpaceRuntime'', rt_attrs = [(''hardware'', PStr ''cpu-basic'')],
                         rt_str = ''SpaceRuntime(hardware=cpu-basic)''\<rparr>"

text \<open>A remote side on which every call succeeds.\<close>

definition remote_up :: remote where
  "remote_up =
     \<lparr>api_list_spaces = (\<lambda>token author search limit full. Inr ([bare_space], None)),
      api_space_info = (\<lambda>token space_id. Inr bare_space),
      api_restart_space = (\<lambda>token space_id. Inr ()),
      api_pause_space = (\<lambda>token space_id. Inr ()),
      api_get_space_runtime = (\<lambda>token space_id. Inr bare_runtime)\<rparr>"

text \<open>A remote side on which every call fails.\<close>

definition remote_down :: remote where
  "remote_down =
     \<lparr>api_list_spaces = (\<lambda>token author search limit full. Inl (HfHubHTTPError ''503 Server Error'')),
      api_space_info = (\<lambda>token space_id. Inl (HfHubHTTPError ''404 Client Error'')),
      api_restart_space = (\<lambda>token space_id. Inl (HfHubHTTPError ''404 Client Error'')),
      api_pause_space = (\<lambda>token space_id. Inl (OtherException ''Connection refused'')),
      api_get_space_runtime = (\<lambda>token space_id. Inl (OtherException ''Connection refused''))\<rparr>"

text \<open>
  A remote side whose listing yields one space and then fails, and whose single-object
  calls return objects that lack an unguarded attribute.
\<close>

definition remote_partial :: remote where
  "remote_partial =
     \<lparr>api_list_spaces = (\<lambda>token author search limit full.
                           Inr ([bare_space], Some (OtherException ''Read timed out''))),
      api_space_info = (\<lambda>token space_id. Inr shaless_space),
      api_restart_space = (\<lambda>token space_id. Inr ()),
      api_pause_space = (\<lambda>token space_id. Inr ()),
      api_get_space_runtime = (\<lambda>token space_id. Inr stageless_runtime)\<rparr>"

text \<open>A remote side whose listing yields a complete space and then one without \<^verbatim>\<open>sha\<close>.\<close>

definition remote_shaless :: remote where
  "remote_shaless =
     \<lparr>api_list_spaces = (\<lambda>token author search limit full.
                           Inr ([bare_space, shaless_space], None)),
      api_space_info = (\<lambda>token space_id. Inr shaless_space),
      api_restart_space = (\<lambda>token space_id. Inr ()),
      api_pause_space = (\<lambda>token space_id. Inr ()),
      api_get_space_runtime = (\<lambda>token space_id. Inr stageless_runtime)\<rparr>"

definition env_empty :: "string \<Rightarrow> string option" where
  "env_empty = (\<lambda>name. None)"

definition env_hf :: "string \<Rightarrow> string option" where
  "env_hf = (\<lambda>name. if name = ''HF_TOKEN'' then Some ''hf_abc'' else None)"

definition env_legacy :: "string \<Rightarrow> string option" where
  "env_legacy = (\<lambda>name. if name = ''HF_TOKEN'' then Some []
                         else if name = ''HUGGINGFACE_TOKEN'' then Some ''hf_old'' else None)"

definition env_blank :: "string \<Rightarrow> string option" where
  "env_blank = (\<lambda>name. if name = ''HUGGINGFACE_TOKEN'' then Some [] else None)"

definition args0 :: args where
  "args0 = \<lparr>arg_command = None, arg_token = None, arg_author = None, arg_search = None,
            arg_limit = 20, arg_space_id = ''alice/demo'', arg_username = ''alice''\<rparr>"

section \<open>Basic facts\<close>

lemma truthy_simps: "truthy None = False" "truthy (Some s) = (s \<noteq> [])"
  by (simp_all add: truthy_def)

lemma exn_bind_simps:
  "exn_bind (Inl e) f = Inl e" "exn_bind (Inr v) f = f v"
  by (simp_all add: exn_bind_def)

lemma getattr_simps:
  "map_of as n = None \<Longrightarrow> getattr c as n = Inl (AttributeError c n)"
  "map_of as n = Some v \<Longrightarrow> getattr c as n = Inr v"
  by (simp_all add: getattr_def)

lemma attr_or_simps:
  "map_of as n = None \<Longrightarrow> attr_or as n d = d"
  "map_of as n = Some v \<Longrightarrow> attr_or as n d = v"
  by (simp_all add: attr_or_def hasattr_def)

section \<open>Verified properties\<close>

text \<open>
  C1. For every space id, \<^verbatim>\<open>restart_space\<close> and \<^verbatim>\<open>pause_space\<close> called with an absent or
  empty token return \<^verbatim>\<open>False\<close>, make no remote API call (the log of calls is unchanged,
  and so is standard output), and print one error line to standard error.
\<close>

theorem restart_pause_require_token:
  assumes "token = None \<or> token = Some []"
  shows "restart_space api space_id token w =
           (False, w\<lparr>stderr := stderr w @ [''Error: Token is required to restart a space.'']\<rparr>)
       \<and> pause_space api space_id token w =
           (False, w\<lparr>stderr := stderr w @ [''Error: Token is required to pause a space.'']\<rparr>)
       \<and> calls (snd (restart_space api space_id token w)) = calls w
       \<and> calls (snd (pause_space api space_id token w)) = calls w"
  using assms by (auto simp: restart_space_def pause_space_def truthy_simps print_err_def)

theorem restart_pause_require_token_witness:
  "restart_space remote_up ''alice/demo'' (Some []) world0 =
     (False, \<lparr>stdout = [], stderr = [''Error: Token is required to restart a space.''], calls = []\<rparr>)
   \<and> pause_space remote_up ''alice/demo'' None world0 =
     (False, \<lparr>stdout = [], stderr = [''Error: Token is required to pause a space.''], calls = []\<rparr>)"
  using restart_pause_require_token [of "Some []" remote_up "''alice/demo''" world0]
        restart_pause_require_token [of None remote_up "''alice/demo''" world0]
  by (simp add: world0_def)

text \<open>
  Exceptions inside the \<^verbatim>\<open>try\<close> block of \<^verbatim>\<open>list_spaces\<close>: an iterable that fails ends
  the loop with an exception, and every exception of the block is turned into the empty
  list and one line on standard error.
\<close>

lemma collect_spaces_failing_iter:
  "\<exists>e'. collect_spaces spaces (Some e) results = Inl e'"
  by (induction spaces arbitrary: results) (auto split: sum.splits)

lemma list_spaces_on_exception:
  assumes "list_spaces_try api author search limit token = Inl e"
  shows "list_spaces api author search limit token w =
           ([], w\<lparr>calls := calls w @ [ListSpacesCall token author search limit True],
                  stderr := stderr w @ [''Error listing spaces: '' @ exn_str e]\<rparr>)"
  using assms by (simp add: list_spaces_def call_api_def print_err_def)

lemma list_call_fails_try:
  assumes "list_call_fails api author search limit token"
  shows "\<exists>e. list_spaces_try api author search limit token = Inl e"
proof (cases "api_list_spaces api token author search limit True")
  case (Inl e)
  then show ?thesis by (simp add: list_spaces_try_def exn_bind_simps)
next
  case (Inr p)
  obtain spaces fin where p: "p = (spaces, fin)" by (cases p)
  with Inr assms obtain e where "fin = Some e"
    by (auto simp: list_call_fails_def)
  with Inr p collect_spaces_failing_iter [of spaces e "[]"] show ?thesis
    by (auto simp: list_spaces_try_def exn_bind_simps)
qed

text \<open>
  C3. For every author, search term, limit and token, and every remote failure (the
  listing call raises, or its iterable raises part-way), \<^verbatim>\<open>list_spaces\<close> does not
  propagate the error: it returns the empty list after printing one diagnostic line to
  standard error; \<^verbatim>\<open>list_user_spaces\<close> does the same.
\<close>

theorem list_spaces_swallows_failure:
  "(list_call_fails api author search limit token \<longrightarrow>
      (\<exists>e. list_spaces api author search limit token w =
          ([], w\<lparr>calls := calls w @ [ListSpacesCall token author search limit True],
                 stderr := stderr w @ [''Error listing spaces: '' @ exn_str e]\<rparr>)))
   \<and> (list_call_fails api (Some username) None 100 token \<longrightarrow>
      (\<exists>e. list_user_spaces api username token w =
          ([], w\<lparr>calls := calls w @ [ListSpacesCall token (Some username) None 100 True],
                 stderr := stderr w @ [''Error listing spaces: '' @ exn_str e]\<rparr>)))"
  using list_call_fails_try list_spaces_on_exception
  unfolding list_user_spaces_def by meson

theorem list_spaces_swallows_failure_witness:
  "list_call_fails remote_down None (Some ''chat'') 5 None
   \<and> list_call_fails remote_partial (Some ''alice'') None 100 (Some ''hf_abc'')
   \<and> fst (list_spaces remote_down None (Some ''chat'') 5 None world0) = []
   \<and> fst (list_user_spaces remote_partial ''alice'' (Some ''hf_abc'') world0) = []"
proof -
  have a: "list_call_fails remote_down None (Some ''chat'') 5 None"
    by (simp add: list_call_fails_def remote_down_def)
  have b: "list_call_fails remote_partial (Some ''alice'') None 100 (Some ''hf_abc'')"
    by (simp add: list_call_fails_def remote_partial_def)
  note t1 = list_spaces_swallows_failure
      [where api = remote_down and author = None and search = "Some ''chat''" and limit = 5
         and token = None and w = world0 and username = "''alice''"]
  note t2 = list_spaces_swallows_failure
      [where api = remote_partial and author = "Some ''alice''" and search = None and limit = 100
         and token = "Some ''hf_abc''" and w = world0 and username = "''alice''"]
  from t1 a obtain e1 where "list_spaces remote_down None (Some ''chat'') 5 None world0 =
       ([], world0\<lparr>calls := calls world0 @ [ListSpacesCall None None (Some ''chat'') 5 True],
                   stderr := stderr world0 @ [''Error listing spaces: '' @ exn_str e1]\<rparr>)"
    by blast
  then have c: "fst (list_spaces remote_down None (Some ''chat'') 5 None world0) = []"
    by simp
  from t2 b obtain e2 where "list_user_spaces remote_partial ''alice'' (Some ''hf_abc'') world0 =
       ([], world0\<lparr>calls := calls world0 @
                      [ListSpacesCall (Some ''hf_abc'') (Some ''alice'') None 100 True],
                   stderr := stderr world0 @ [''Error listing spaces: '' @ exn_str e2]\<rparr>)"
    by blast
  then have d: "fst (list_user_spaces remote_partial ''alice'' (Some ''hf_abc'') world0) = []"
    by simp
  from a b c d show ?thesis by simp
qed

text \<open>
  C4. For every username and token, \<^verbatim>\<open>list_user_spaces\<close> returns exactly what
  \<^verbatim>\<open>list_spaces\<close> returns with the author bound to the username, no search term and the
  limit 100; the one remote request it makes carries these parameters.
\<close>

theorem list_user_spaces_eq:
  "list_user_spaces api username token w = list_spaces api (Some username) None 100 token w
   \<and> calls (snd (list_user_spaces api username token w)) =
       calls w @ [ListSpacesCall token (Some username) None 100 True]"
  by (simp add: list_user_spaces_def list_spaces_def call_api_def print_err_def Let_def
           split: sum.splits)


text \<open>
  C2, as stated, fails: a record built from a response in which every attribute read
  under a \<^verbatim>\<open>hasattr\<close> guard is absent does not have all of these fields null. For the
  space object \<open>bare_space\<close>, which has neither \<^verbatim>\<open>private\<close> nor \<^verbatim>\<open>likes\<close>, the record
  holds \<^verbatim>\<open>False\<close> and \<^verbatim>\<open>0\<close> there.
\<close>

theorem guarded_defaults_counterexample:
  "space_dict bare_space =
     Inr [(''id'', PStr ''alice/demo''), (''author'', PStr ''alice''), (''sha'', PStr ''0f3c''),
          (''last_modified'', PNone), (''private'', PBool False), (''likes'', PInt 0),
          (''sdk'', PNone)]
   \<and> hasattr (sp_attrs bare_space) ''private'' = False
   \<and> hasattr (sp_attrs bare_space) ''likes'' = False
   \<and> PBool False \<noteq> PNone \<and> PInt 0 \<noteq> PNone"
  by (simp add: space_dict_def bare_space_def exn_bind_def getattr_def attr_or_def hasattr_def)

text \<open>
  C2, amended. A record (of \<^verbatim>\<open>list_spaces\<close>, \<^verbatim>\<open>get_space_info\<close> or
  \<^verbatim>\<open>get_space_runtime\<close>) built from a response that has the unguarded attributes and none
  of the guarded ones is constructed without failure; its fields \<^verbatim>\<open>last_modified\<close>,
  \<^verbatim>\<open>sdk\<close>, \<^verbatim>\<open>sdk_version\<close>, \<^verbatim>\<open>runtime\<close>, \<^verbatim>\<open>hardware\<close>, \<^verbatim>\<open>requested_hardware\<close> and
  \<^verbatim>\<open>sleep_time\<close> are null, while \<^verbatim>\<open>private\<close> is \<^verbatim>\<open>False\<close> and \<^verbatim>\<open>likes\<close> is \<^verbatim>\<open>0\<close>.
\<close>

theorem absent_guarded_fields_default:
  assumes "map_of (sp_attrs space) ''id'' = Some v_id"
    and "map_of (sp_attrs space) ''author'' = Some v_author"
    and "map_of (sp_attrs space) ''sha'' = Some v_sha"
    and "\<not> hasattr (sp_attrs space) ''lastModified''"
    and "\<not> hasattr (sp_attrs space) ''private''"
    and "\<not> hasattr (sp_attrs space) ''likes''"
    and "\<not> hasattr (sp_attrs space) ''sdk''"
    and "\<not> hasattr (sp_attrs space) ''sdk_version''"
    and "sp_runtime space = RuntimeAbsent \<or> sp_runtime space = RuntimeNone
         \<or> (\<exists>r. sp_runtime space = RuntimeObj r \<and> \<not> hasattr (rt_attrs r) ''stage''
                  \<and> \<not> hasattr (rt_attrs r) ''hardware'')"
    and "map_of (rt_attrs runtime) ''stage'' = Some v_stage"
    and "\<not> hasattr (rt_attrs runtime) ''hardware''"
    and "\<not> hasattr (rt_attrs runtime) ''requested_hardware''"
    and "\<not> hasattr (rt_attrs runtime) ''sleep_time''"
  shows "space_dict space =
           Inr [(''id'', v_id), (''author'', v_author), (''sha'', v_sha),
                (''last_modified'', PNone), (''private'', PBool False), (''likes'', PInt 0),
                (''sdk'', PNone)]
       \<and> space_info_dict space =
           Inr [(''id'', v_id), (''author'', v_author), (''sha'', v_sha),
                (''last_modified'', PNone), (''private'', PBool False), (''likes'', PInt 0),
                (''sdk'', PNone), (''sdk_version'', PNone), (''runtime'', PNone),
                (''hardware'', PNone)]
       \<and> runtime_info_dict runtime =
           Inr [(''stage'', v_stage), (''hardware'', PNone), (''requested_hardware'', PNone),
                (''sleep_time'', PNone), (''raw_data'', PStr (rt_str runtime))]"
proof -
  have rf: "runtime_field space ''stage'' = PNone" "runtime_field space ''hardware'' = PNone"
    using assms(9) by (auto simp: runtime_field_def attr_or_def)
  have "space_dict space =
           Inr [(''id'', v_id), (''author'', v_author), (''sha'', v_sha),
                (''last_modified'', PNone), (''private'', PBool False), (''likes'', PInt 0),
                (''sdk'', PNone)]"
    using assms(1-7) by (simp add: space_dict_def exn_bind_simps getattr_simps attr_or_def)
  moreover have "space_info_dict space =
           Inr [(''id'', v_id), (''author'', v_author), (''sha'', v_sha),
                (''last_modified'', PNone), (''private'', PBool False), (''likes'', PInt 0),
                (''sdk'', PNone), (''sdk_version'', PNone), (''runtime'', PNone),
                (''hardware'', PNone)]"
    using assms(1-8) rf
    by (simp add: space_info_dict_def exn_bind_simps getattr_simps attr_or_def)
  moreover have "runtime_info_dict runtime =
           Inr [(''stage'', v_stage), (''hardware'', PNone), (''requested_hardware'', PNone),
                (''sleep_time'', PNone), (''raw_data'', PStr (rt_str runtime))]"
    using assms(10-13)
    by (simp add: runtime_info_dict_def exn_bind_simps getattr_simps attr_or_def)
  ultimately show ?thesis by simp
qed

theorem absent_guarded_fields_default_witness:
  "space_dict bare_space =
     Inr [(''id'', PStr ''alice/demo''), (''author'', PStr ''alice''), (''sha'', PStr ''0f3c''),
          (''last_modified'', PNone), (''private'', PBool False), (''likes'', PInt 0),
          (''sdk'', PNone)]
   \<and> space_info_dict bare_space =
     Inr [(''id'', PStr ''alice/demo''), (''author'', PStr ''alice''), (''sha'', PStr ''0f3c''),
          (''last_modified'', PNone), (''private'', PBool False), (''likes'', PInt 0),
          (''sdk'', PNone), (''sdk_version'', PNone), (''runtime'', PNone),
          (''hardware'', PNone)]
   \<and> runtime_info_dict bare_runtime =
     Inr [(''stage'', PStr ''RUNNING''), (''hardware'', PNone), (''requested_hardware'', PNone),
          (''sleep_time'', PNone), (''raw_data'', PStr ''SpaceRuntime(stage=RUNNING)'')]"
  using absent_guarded_fields_default
      [where space = bare_space and runtime = bare_runtime and v_id = "PStr ''alice/demo''"
         and v_author = "PStr ''alice''" and v_sha = "PStr ''0f3c''"
         and v_stage = "PStr ''RUNNING''"]
  by (simp add: bare_space_def bare_runtime_def hasattr_def)

text \<open>
  C6. For every space id and token, \<^verbatim>\<open>get_space_info\<close> returns \<^verbatim>\<open>None\<close> whenever its
  \<^verbatim>\<open>try\<close> block raises; an \<^verbatim>\<open>HfHubHTTPError\<close> and any other exception differ only in
  the prefix of the line printed to standard error.
\<close>

theorem get_space_info_failure_absent:
  assumes "get_space_info_try api space_id token = Inl e"
  shows "get_space_info api space_id token w =
           (None, w\<lparr>calls := calls w @ [SpaceInfoCall token space_id],
                    stderr := stderr w @
                      [(case e of HfHubHTTPError m \<Rightarrow> ''Error getting space info: ''
                                | AttributeError c n \<Rightarrow> ''Unexpected error: ''
                                | OtherException m \<Rightarrow> ''Unexpected error: '') @ exn_str e]\<rparr>)"
  using assms
  by (cases e) (simp_all add: get_space_info_def call_api_def print_err_def)

theorem get_space_info_failure_absent_witness:
  "get_space_info_try remote_down ''alice/demo'' None = Inl (HfHubHTTPError ''404 Client Error'')
   \<and> get_space_info remote_down ''alice/demo'' None world0 =
       (None, \<lparr>stdout = [], stderr = [''Error getting space info: 404 Client Error''],
               calls = [SpaceInfoCall None ''alice/demo'']\<rparr>)
   \<and> get_space_info_try remote_partial ''bob/app'' None = Inl (AttributeError ''SpaceInfo'' ''sha'')
   \<and> fst (get_space_info remote_partial ''bob/app'' None world0) = None"
proof -
  have a: "get_space_info_try remote_down ''alice/demo'' None
             = Inl (HfHubHTTPError ''404 Client Error'')"
    by (simp add: get_space_info_try_def remote_down_def exn_bind_simps)
  have b: "get_space_info_try remote_partial ''bob/app'' None
             = Inl (AttributeError ''SpaceInfo'' ''sha'')"
    by (simp add: get_space_info_try_def remote_partial_def exn_bind_simps space_info_dict_def
          shaless_space_def getattr_def)
  from get_space_info_failure_absent [OF a, of world0] get_space_info_failure_absent [OF b, of world0]
    a b show ?thesis
    by (simp add: world0_def exn_str_def)
qed


text \<open>
  Reading \<^verbatim>\<open>id\<close>, \<^verbatim>\<open>author\<close> or \<^verbatim>\<open>sha\<close> of an object that lacks it raises
  \<^verbatim>\<open>AttributeError\<close>, and one such object among those listed ends the loop.
\<close>

lemma space_dict_lacks:
  assumes "lacks_required space"
  shows "\<exists>n. space_dict space = Inl (AttributeError (sp_cls space) n)"
  using assms
  by (auto simp: lacks_required_def hasattr_def space_dict_def getattr_def exn_bind_def
           split: option.splits)

lemma space_info_dict_lacks:
  assumes "lacks_required space"
  shows "\<exists>n. space_info_dict space = Inl (AttributeError (sp_cls space) n)"
  using assms
  by (auto simp: lacks_required_def hasattr_def space_info_dict_def getattr_def exn_bind_def
           split: option.splits)

lemma collect_spaces_lacks:
  assumes "space \<in> set spaces" and "lacks_required space"
  shows "\<exists>e. collect_spaces spaces fin results = Inl e"
  using assms
proof (induction spaces arbitrary: results)
  case Nil
  then show ?case by simp
next
  case (Cons s rest)
  show ?case
  proof (cases "space_dict s")
    case (Inl e)
    then show ?thesis by simp
  next
    case (Inr d)
    with Cons.prems space_dict_lacks [of s] have "space \<in> set rest" by auto
    with Cons.IH Cons.prems(2) Inr show ?thesis by simp
  qed
qed

text \<open>
  C9. The attributes \<^verbatim>\<open>id\<close>, \<^verbatim>\<open>author\<close> and \<^verbatim>\<open>sha\<close> in \<^verbatim>\<open>list_spaces\<close> and
  \<^verbatim>\<open>get_space_info\<close>, and \<^verbatim>\<open>stage\<close> in \<^verbatim>\<open>get_space_runtime\<close>, are read without a
  presence guard: when a remote response lacks one of them, the operation gives its error
  result (the empty list, or \<^verbatim>\<open>None\<close>) and a diagnostic line, not a record with a null
  field.
\<close>

theorem unguarded_fields_degrade:
  "(api_list_spaces api token author search limit True = Inr (spaces, fin)
      \<and> space \<in> set spaces \<and> lacks_required space \<longrightarrow>
      (\<exists>e. list_spaces api author search limit token w =
          ([], w\<lparr>calls := calls w @ [ListSpacesCall token author search limit True],
                 stderr := stderr w @ [''Error listing spaces: '' @ exn_str e]\<rparr>)))
   \<and> (api_space_info api token space_id = Inr space \<and> lacks_required space \<longrightarrow>
      (\<exists>n. get_space_info api space_id token w =
          (None, w\<lparr>calls := calls w @ [SpaceInfoCall token space_id],
                   stderr := stderr w @
                     [''Unexpected error: '' @ exn_str (AttributeError (sp_cls space) n)]\<rparr>)))
   \<and> (api_get_space_runtime api token space_id = Inr runtime
        \<and> \<not> hasattr (rt_attrs runtime) ''stage'' \<longrightarrow>
      get_space_runtime api space_id token w =
          (None, w\<lparr>calls := calls w @ [GetSpaceRuntimeCall token space_id],
                   stderr := stderr w @
                     [''Unexpected error: '' @ exn_str (AttributeError (rt_cls runtime) ''stage'')]\<rparr>))"
proof (intro conjI impI)
  assume h: "api_list_spaces api token author search limit True = Inr (spaces, fin)
      \<and> space \<in> set spaces \<and> lacks_required space"
  then obtain e where "collect_spaces spaces fin [] = Inl e"
    using collect_spaces_lacks by blast
  with h have "list_spaces_try api author search limit token = Inl e"
    by (simp add: list_spaces_try_def exn_bind_simps)
  then show "\<exists>e. list_spaces api author search limit token w =
          ([], w\<lparr>calls := calls w @ [ListSpacesCall token author search limit True],
                 stderr := stderr w @ [''Error listing spaces: '' @ exn_str e]\<rparr>)"
    using list_spaces_on_exception by blast
next
  assume h: "api_space_info api token space_id = Inr space \<and> lacks_required space"
  then obtain n where "space_info_dict space = Inl (AttributeError (sp_cls space) n)"
    using space_info_dict_lacks by blast
  with h have "get_space_info_try api space_id token = Inl (AttributeError (sp_cls space) n)"
    by (simp add: get_space_info_try_def exn_bind_simps)
  then have "get_space_info api space_id token w =
          (None, w\<lparr>calls := calls w @ [SpaceInfoCall token space_id],
                   stderr := stderr w @
                     [''Unexpected error: '' @ exn_str (AttributeError (sp_cls space) n)]\<rparr>)"
    by (simp add: get_space_info_def call_api_def print_err_def)
  then show "\<exists>n. get_space_info api space_id token w =
          (None, w\<lparr>calls := calls w @ [SpaceInfoCall token space_id],
                   stderr := stderr w @
                     [''Unexpected error: '' @ exn_str (AttributeError (sp_cls space) n)]\<rparr>)"
    by blast
next
  assume h: "api_get_space_runtime api token space_id = Inr runtime
        \<and> \<not> hasattr (rt_attrs runtime) ''stage''"
  then have "get_space_runtime_try api space_id token
               = Inl (AttributeError (rt_cls runtime) ''stage'')"
    by (simp add: get_space_runtime_try_def exn_bind_simps runtime_info_dict_def getattr_def
          hasattr_def)
  then show "get_space_runtime api space_id token w =
          (None, w\<lparr>calls := calls w @ [GetSpaceRuntimeCall token space_id],
                   stderr := stderr w @
                     [''Unexpected error: '' @ exn_str (AttributeError (rt_cls runtime) ''stage'')]\<rparr>)"
    by (simp add: get_space_runtime_def call_api_def print_err_def)
qed

theorem unguarded_fields_degrade_witness:
  "api_list_spaces remote_shaless None None None 20 True = Inr ([bare_space, shaless_space], None)
   \<and> shaless_space \<in> set [bare_space, shaless_space] \<and> lacks_required shaless_space
   \<and> fst (list_spaces remote_shaless None None 20 None world0) = []
   \<and> api_space_info remote_shaless None ''bob/app'' = Inr shaless_space
   \<and> fst (get_space_info remote_shaless ''bob/app'' None world0) = None
   \<and> api_get_space_runtime remote_shaless None ''bob/app'' = Inr stageless_runtime
   \<and> \<not> hasattr (rt_attrs stageless_runtime) ''stage''
   \<and> fst (get_space_runtime remote_shaless ''bob/app'' None world0) = None"
proof -
  have a: "api_list_spaces remote_shaless None None None 20 True
             = Inr ([bare_space, shaless_space], None)"
    by (simp add: remote_shaless_def)
  have b: "shaless_space \<in> set [bare_space, shaless_space]" by simp
  have c: "lacks_required shaless_space"
    by (simp add: lacks_required_def shaless_space_def hasattr_def)
  have d: "api_space_info remote_shaless None ''bob/app'' = Inr shaless_space"
    by (simp add: remote_shaless_def)
  have e: "api_get_space_runtime remote_shaless None ''bob/app'' = Inr stageless_runtime"
    by (simp add: remote_shaless_def)
  have f: "\<not> hasattr (rt_attrs stageless_runtime) ''stage''"
    by (simp add: stageless_runtime_def hasattr_def)
  note t = unguarded_fields_degrade
      [where api = remote_shaless and token = None and author = None and search = None
         and limit = 20 and spaces = "[bare_space, shaless_space]" and fin = None
         and space = shaless_space and w = world0 and space_id = "''bob/app''"
         and runtime = stageless_runtime]
  from t a b c obtain x where "list_spaces remote_shaless None None 20 None world0 =
          ([], world0\<lparr>calls := calls world0 @ [ListSpacesCall None None None 20 True],
                 stderr := stderr world0 @ [''Error listing spaces: '' @ exn_str x]\<rparr>)"
    by blast
  then have g: "fst (list_spaces remote_shaless None None 20 None world0) = []" by simp
  from t d c obtain n where "get_space_info remote_shaless ''bob/app'' None world0 =
          (None, world0\<lparr>calls := calls world0 @ [SpaceInfoCall None ''bob/app''],
                   stderr := stderr world0 @
                     [''Unexpected error: '' @ exn_str (AttributeError (sp_cls shaless_space) n)]\<rparr>)"
    by blast
  then have h: "fst (get_space_info remote_shaless ''bob/app'' None world0) = None" by simp
  from t e f have "get_space_runtime remote_shaless ''bob/app'' None world0 =
          (None, world0\<lparr>calls := calls world0 @ [GetSpaceRuntimeCall None ''bob/app''],
                   stderr := stderr world0 @
                     [''Unexpected error: '' @ exn_str (AttributeError (rt_cls stageless_runtime) ''stage'')]\<rparr>)"
    by blast
  then have i: "fst (get_space_runtime remote_shaless ''bob/app'' None world0) = None" by simp
  from a b c d e f g h i show ?thesis by simp
qed


text \<open>
  The dictionaries that \<^verbatim>\<open>get_space_info\<close> and \<^verbatim>\<open>get_space_runtime\<close> return are never
  empty, so the tests \<^verbatim>\<open>if info:\<close> and \<^verbatim>\<open>if runtime:\<close> of \<^verbatim>\<open>main\<close> fail only on \<^verbatim>\<open>None\<close>.
\<close>

lemma space_info_dict_nonempty: "space_info_dict space \<noteq> Inr []"
  by (simp add: space_info_dict_def exn_bind_def split: sum.splits)

lemma runtime_info_dict_nonempty: "runtime_info_dict runtime \<noteq> Inr []"
  by (simp add: runtime_info_dict_def exn_bind_def split: sum.splits)

lemma get_space_info_nonempty: "fst (get_space_info api space_id token w) \<noteq> Some []"
  using space_info_dict_nonempty
  by (auto simp: get_space_info_def get_space_info_try_def exn_bind_def Let_def
           split: sum.splits exn.splits)

lemma get_space_runtime_nonempty: "fst (get_space_runtime api space_id token w) \<noteq> Some []"
  using runtime_info_dict_nonempty
  by (auto simp: get_space_runtime_def get_space_runtime_try_def exn_bind_def Let_def
           split: sum.splits exn.splits)

text \<open>
  C5. With a subcommand given, the command-line program exits with code 1 exactly when
  the command is \<^verbatim>\<open>info\<close>, \<^verbatim>\<open>restart\<close>, \<^verbatim>\<open>pause\<close> or \<^verbatim>\<open>runtime\<close> and the result of its
  operation is absent or false, and with code 0 otherwise; \<^verbatim>\<open>list\<close> and \<^verbatim>\<open>user\<close> always
  exit with 0, whatever the remote side does.
\<close>

theorem cli_exit_code:
  assumes "arg_command a = Some c" and "c \<noteq> []"
  shows "fst (main api environ a w) =
           (if (c = ''info'' \<and>
                  fst (get_space_info api (arg_space_id a) (fst (resolve_token environ a w))
                         (snd (resolve_token environ a w))) = None)
               \<or> (c = ''restart'' \<and>
                  \<not> fst (restart_space api (arg_space_id a) (fst (resolve_token environ a w))
                           (snd (resolve_token environ a w))))
               \<or> (c = ''pause'' \<and>
                  \<not> fst (pause_space api (arg_space_id a) (fst (resolve_token environ a w))
                           (snd (resolve_token environ a w))))
               \<or> (c = ''runtime'' \<and>
                  fst (get_space_runtime api (arg_space_id a) (fst (resolve_token environ a w))
                         (snd (resolve_token environ a w))) = None)
            then 1 else 0)
       \<and> (c = ''list'' \<or> c = ''user'' \<longrightarrow> fst (main api environ a w) = 0)"
proof -
  obtain token w1 where r: "resolve_token environ a w = (token, w1)"
    by (cases "resolve_token environ a w")
  obtain i wi where i: "get_space_info api (arg_space_id a) token w1 = (i, wi)"
    by (cases "get_space_info api (arg_space_id a) token w1")
  obtain rt wr where rt: "get_space_runtime api (arg_space_id a) token w1 = (rt, wr)"
    by (cases "get_space_runtime api (arg_space_id a) token w1")
  have i_ne: "i \<noteq> Some []" using get_space_info_nonempty [of api "arg_space_id a" token w1] i
    by simp
  have rt_ne: "rt \<noteq> Some []" using get_space_runtime_nonempty [of api "arg_space_id a" token w1] rt
    by simp
  show ?thesis
    using assms r i rt i_ne rt_ne
    by (auto simp: main_def truthy_simps split: prod.splits option.splits)
qed

theorem cli_exit_code_witness:
  "fst (main remote_down env_hf (args0\<lparr>arg_command := Some ''info''\<rparr>) world0) = 1
   \<and> fst (main remote_up env_hf (args0\<lparr>arg_command := Some ''info''\<rparr>) world0) = 0
   \<and> fst (main remote_down env_empty (args0\<lparr>arg_command := Some ''list''\<rparr>) world0) = 0"
proof -
  have a: "fst (get_space_info remote_down ''alice/demo'' (Some ''hf_abc'') world0) = None"
    by (simp add: get_space_info_def get_space_info_try_def remote_down_def exn_bind_simps)
  have b: "fst (get_space_info remote_up ''alice/demo'' (Some ''hf_abc'') world0) \<noteq> None"
    by (simp add: get_space_info_def get_space_info_try_def remote_up_def exn_bind_simps
          space_info_dict_def bare_space_def getattr_def)
  have r: "resolve_token env_hf (args0\<lparr>arg_command := Some ''info''\<rparr>) world0
             = (Some ''hf_abc'', world0)"
    by (simp add: resolve_token_def get_token_def args0_def env_hf_def py_or_def truthy_simps)
  from cli_exit_code [of "args0\<lparr>arg_command := Some ''info''\<rparr>" "''info''" remote_down env_hf world0]
       a r
  have 1: "fst (main remote_down env_hf (args0\<lparr>arg_command := Some ''info''\<rparr>) world0) = 1"
    by (simp add: args0_def)
  from cli_exit_code [of "args0\<lparr>arg_command := Some ''info''\<rparr>" "''info''" remote_up env_hf world0]
       b r
  have 2: "fst (main remote_up env_hf (args0\<lparr>arg_command := Some ''info''\<rparr>) world0) = 0"
    by (simp add: args0_def)
  from cli_exit_code [of "args0\<lparr>arg_command := Some ''list''\<rparr>" "''list''" remote_down env_empty world0]
  have 3: "fst (main remote_down env_empty (args0\<lparr>arg_command := Some ''list''\<rparr>) world0) = 0"
    by simp
  from 1 2 3 show ?thesis by simp
qed

text \<open>
  C7, as stated, fails. A \<^verbatim>\<open>--token\<close> flag given with the empty string is not selected:
  the token comes from \<^verbatim>\<open>HF_TOKEN\<close>. And with no flag, \<^verbatim>\<open>HF_TOKEN\<close> unset and
  \<^verbatim>\<open>HUGGINGFACE_TOKEN\<close> set to the empty string, the token is the empty string, not
  \<^verbatim>\<open>None\<close>.
\<close>

theorem token_flag_counterexample:
  "arg_token (args0\<lparr>arg_token := Some []\<rparr>) = Some []
   \<and> fst (resolve_token env_hf (args0\<lparr>arg_token := Some []\<rparr>) world0) = Some ''hf_abc''
   \<and> fst (resolve_token env_blank args0 world0) = Some []"
  by (simp add: resolve_token_def get_token_def py_or_def truthy_simps env_hf_def env_blank_def
        args0_def)

text \<open>
  C7, amended. Token resolution selects the \<^verbatim>\<open>--token\<close> flag when it is given and not
  empty; otherwise the first non-empty of the environment variables \<^verbatim>\<open>HF_TOKEN\<close> then
  \<^verbatim>\<open>HUGGINGFACE_TOKEN\<close>; otherwise the token is the value of \<^verbatim>\<open>HUGGINGFACE_TOKEN\<close>
  (absent, or the empty string) and a two-line warning is printed to standard error.
  The warning is printed in that last case only.
\<close>

theorem token_resolution_order:
  "resolve_token environ a w =
     (if truthy (arg_token a) then (arg_token a, w)
      else if truthy (environ ''HF_TOKEN'') then (environ ''HF_TOKEN'', w)
      else if truthy (environ ''HUGGINGFACE_TOKEN'') then (environ ''HUGGINGFACE_TOKEN'', w)
      else (environ ''HUGGINGFACE_TOKEN'',
            w\<lparr>stderr := stderr w @
                 [''Warning: No HF_TOKEN or HUGGINGFACE_TOKEN found in environment.'',
                  ''Some operations may require authentication.'']\<rparr>))
   \<and> (truthy (fst (resolve_token environ a w))
        = (truthy (arg_token a) \<or> truthy (environ ''HF_TOKEN'')
             \<or> truthy (environ ''HUGGINGFACE_TOKEN'')))"
  by (simp add: resolve_token_def get_token_def py_or_def print_err_def Let_def)

theorem token_resolution_order_witness:
  "resolve_token env_hf (args0\<lparr>arg_token := Some ''hf_cli''\<rparr>) world0 = (Some ''hf_cli'', world0)
   \<and> resolve_token env_hf args0 world0 = (Some ''hf_abc'', world0)
   \<and> resolve_token env_legacy args0 world0 = (Some ''hf_old'', world0)
   \<and> resolve_token env_empty args0 world0 =
       (None, \<lparr>stdout = [],
               stderr = [''Warning: No HF_TOKEN or HUGGINGFACE_TOKEN found in environment.'',
                         ''Some operations may require authentication.''],
               calls = []\<rparr>)"
  using token_resolution_order [of env_hf "args0\<lparr>arg_token := Some ''hf_cli''\<rparr>" world0]
        token_resolution_order [of env_hf args0 world0]
        token_resolution_order [of env_legacy args0 world0]
        token_resolution_order [of env_empty args0 world0]
  by (simp add: truthy_simps args0_def env_hf_def env_legacy_def env_empty_def world0_def)

text \<open>
  C8. Invoked with no subcommand, the program prints the parser's help text, which holds
  the usage, and exits with code 1; it resolves no token and makes no remote call.
\<close>

theorem no_subcommand_usage:
  assumes "arg_command a = None"
  shows "main api environ a w = (1, w\<lparr>stdout := stdout w @ [HelpText]\<rparr>)"
  using assms by (simp add: main_def truthy_simps print_out_def)

theorem no_subcommand_usage_witness:
  "main remote_up env_hf args0 world0 = (1, \<lparr>stdout = [HelpText], stderr = [], calls = []\<rparr>)"
  using no_subcommand_usage [of args0 remote_up env_hf world0]
  by (simp add: args0_def world0_def)

text \<open>
  C10. With an explicit but empty \<^verbatim>\<open>--token\<close> flag the empty value is not used: the
  token is what \<^verbatim>\<open>get_token\<close> reads from the environment, and the whole run equals the
  run with the flag omitted.
\<close>

theorem empty_token_flag_falls_through:
  assumes "arg_token a = Some []"
  shows "resolve_token environ a w = get_token environ w
       \<and> resolve_token environ a w = resolve_token environ (a\<lparr>arg_token := None\<rparr>) w
       \<and> main api environ a w = main api environ (a\<lparr>arg_token := None\<rparr>) w"
proof -
  have r: "resolve_token environ a w = get_token environ w"
    using assms by (simp add: resolve_token_def truthy_simps)
  have r': "resolve_token environ (a\<lparr>arg_token := None\<rparr>) w = get_token environ w"
    by (simp add: resolve_token_def truthy_simps)
  have "main api environ a w = main api environ (a\<lparr>arg_token := None\<rparr>) w"
    unfolding main_def r r' by (cases "get_token environ w") simp
  with r r' show ?thesis by simp
qed

theorem empty_token_flag_falls_through_witness:
  "resolve_token env_legacy (args0\<lparr>arg_command := Some ''restart'', arg_token := Some []\<rparr>) world0
     = (Some ''hf_old'', world0)
   \<and> main remote_up env_legacy (args0\<lparr>arg_command := Some ''restart'', arg_token := Some []\<rparr>) world0
     = main remote_up env_legacy (args0\<lparr>arg_command := Some ''restart'', arg_token := None\<rparr>) world0"
  using empty_token_flag_falls_through
      [of "args0\<lparr>arg_command := Some ''restart'', arg_token := Some []\<rparr>" env_legacy world0 remote_up]
  by (simp add: get_token_def py_or_def truthy_simps env_legacy_def args0_def)


end
